theory Spec2Isabelle
  imports Complex_Main
begin

section \<open>The static dashboard catalog (dashboard_catalog.ts)\<close>

text \<open>
  \<^verbatim>\<open>AGENT_NAME_DASHBOARD_FILE_MAPPING\<close> is an object literal of type
  \<^verbatim>\<open>Record<string, string>\<close>. It is kept as the list of its entries, in the order
  of the literal; reading a key is \<open>map_of\<close> on that list (the first entry of a key;
  the literal has no key twice). Only the object's own entries are modelled.
\<close>

definition AGENT_NAME_DASHBOARD_FILE_MAPPING :: "(string \<times> string) list" where
  "AGENT_NAME_DASHBOARD_FILE_MAPPING =
    [(''nodejs'', ''nodejs''),
     (''opentelemetry/nodejs'', ''opentelemetry_nodejs''),
     (''java'', ''java''),
     (''opentelemetry/java'', ''opentelemetry_java''),
     (''opentelemetry/java/opentelemetry-java-instrumentation'', ''opentelemetry_java''),
     (''opentelemetry/java/elastic'', ''opentelemetry_java''),
     (''opentelemetry/dotnet'', ''opentelemetry_dotnet''),
     (''opentelemetry/dotnet/opentelemetry-dotnet-instrumentation'', ''opentelemetry_dotnet''),
     (''opentelemetry/dotnet/elastic'', ''opentelemetry_dotnet'')]"

text \<open>
  A dynamic \<^verbatim>\<open>import(...)\<close> expression: the chunk name of its webpack magic comment
  and the module specifier it loads.
\<close>

datatype dynamic_import = Import (webpackChunkName: string) (specifier: string)

text \<open>
  \<^verbatim>\<open>loadDashboardFile\<close> is an \<^verbatim>\<open>async\<close> function: the result is what its promise
  settles with. \<open>Some\<close> is the module of the import the matching \<^verbatim>\<open>case\<close> returns,
  \<open>None\<close> is \<^verbatim>\<open>undefined\<close>, which the function yields after the \<^verbatim>\<open>default\<close> branch
  breaks out of the \<^verbatim>\<open>switch\<close>. The cases are tried in the order of the source.
\<close>

definition loadDashboardFile :: "string \<Rightarrow> dynamic_import option" where
  "loadDashboardFile filename =
    (if filename = ''nodejs'' then
       Some (Import ''lazyNodeJsDashboard'' ''./nodejs.json'')
     else if filename = ''opentelemetry_nodejs'' then
       Some (Import ''lazyNodeJsDashboard'' ''./opentelemetry_nodejs.json'')
     else if filename = ''java'' then
       Some (Import ''lazyJavaDashboard'' ''./java.json'')
     else if filename = ''opentelemetry_java'' then
       Some (Import ''lazyJavaDashboard'' ''./opentelemetry_java.json'')
     else if filename = ''opentelemetry_dotnet'' then
       Some (Import ''lazyOtelDotnetDashboard'' ''./opentelemetry_dotnet.json'')
     else None)"

section \<open>The log rate analysis results component (log_rate_analysis_results.tsx)\<close>

text \<open>
  \<^verbatim>\<open>LogRateAnalysisResults\<close> is a React function component. Its model is a record of
  everything one render reads: the values selected from the state store, the props and
  context values, the \<^verbatim>\<open>useState\<close> cells and the \<^verbatim>\<open>useRef\<close> cells. A handler or an
  effect body is a function from the component as it was rendered to the component
  after the handler: \<^verbatim>\<open>setX(v)\<close> is an update of the cell, \<^verbatim>\<open>dispatch(a)\<close> appends
  the action to the list of dispatched actions (the reducers belong to the store and
  are not part of this file), \<^verbatim>\<open>reportPerformanceMetricEvent\<close> appends to the list of
  reported events.

  JavaScript numbers are modelled as reals; the comparisons below are the only
  operations on them besides one subtraction. The types of significant items, window
  parameters, the search query and the HTTP service are declared outside this file
  and stay type parameters \<open>'i\<close>, \<open>'w\<close>, \<open>'q\<close> and \<open>'h\<close>.
\<close>

datatype LogRateAnalysisType = SPIKE | DIP

type_synonym ref = nat
type_synonym addr = nat

text \<open>
  \<^verbatim>\<open>AiopsLogRateAnalysisSchema['overrides']\<close>: every key is optional, an absent key
  (or one holding \<^verbatim>\<open>undefined\<close>) is \<open>None\<close>.
\<close>

record 'i Overrides =
  ov_loaded :: "real option"
  ov_remainingKeywordFieldCandidates :: "string list option"
  ov_remainingTextFieldCandidates :: "string list option"
  ov_significantItems :: "'i list option"
  ov_regroupOnly :: "bool option"

text \<open>
  The request body of \<^verbatim>\<open>startParams\<close>. \<open>body_windowParameters\<close> holds the keys the
  object spread \<^verbatim>\<open>...(analysisType === SPIKE ? chartWindowParameters : ...)\<close> copies
  into the body.
\<close>

record ('i, 'w) RequestBody =
  body_start :: real
  body_end :: real
  body_searchQuery :: string
  body_timeFieldName :: string
  body_index :: string
  body_grouping :: bool
  body_flushFix :: bool
  body_windowParameters :: 'w
  body_overrides :: "'i Overrides option"
  body_sampleProbability :: real

record ('i, 'w, 'h) StartParams =
  sp_http :: 'h
  sp_endpoint :: string
  sp_apiVersion :: string
  sp_abortCtrl :: ref
  sp_body :: "('i, 'w) RequestBody"
  sp_headers :: "(string \<times> string) list"

text \<open>The actions the component dispatches to the store.\<close>

datatype ('i, 'w, 'h) Action =
    ResetResults
  | ClearAllRowState
  | CancelStream
  | SetCurrentAnalysisType LogRateAnalysisType
  | SetCurrentAnalysisWindowParameters "'w option"
  | FetchFieldCandidates "('i, 'w, 'h) StartParams"
  | StartStream "('i, 'w, 'h) StartParams"

record PerformanceMetricEvent =
  eventName :: string
  duration :: real

text \<open>The store slice \<^verbatim>\<open>s.logRateAnalysisResults\<close> (\<^verbatim>\<open>data\<close>), as far as it is read.\<close>

record 'i ResultsState =
  loaded :: real
  remainingKeywordFieldCandidates :: "string list option"
  remainingTextFieldCandidates :: "string list option"
  groupsMissing :: "bool option"
  significantItems :: "'i list"
  errors :: "string list"

text \<open>The store slice \<^verbatim>\<open>s.logRateAnalysisFieldCandidates\<close>.\<close>

record FieldCandidates =
  isLoading :: bool
  fieldFilterUniqueItems :: "string list"
  fieldFilterSkippedItems :: "string list"
  keywordFieldCandidates :: "string list"
  textFieldCandidates :: "string list"

record DataView =
  timeFieldName :: "string option"
  getIndexPattern :: string

text \<open>
  Imported values the component uses and this file does not define:
  \<^verbatim>\<open>getSwappedWindowParameters\<close>, \<^verbatim>\<open>JSON.stringify\<close> on the search query and the header
  name \<^verbatim>\<open>AIOPS_ANALYSIS_RUN_ORIGIN\<close>.
\<close>

record ('w, 'q) Imports =
  getSwappedWindowParameters :: "'w \<Rightarrow> 'w"
  JSON_stringify :: "'q \<Rightarrow> string"
  AIOPS_ANALYSIS_RUN_ORIGIN :: string

text \<open>
  \<open>abortCtrl\<close> is the ref object \<^verbatim>\<open>useRef(new AbortController())\<close> returns;
  \<open>ref_current\<close> gives the controller a ref object holds in \<^verbatim>\<open>.current\<close>, and
  \<open>signal_aborted\<close> tells whether a controller's signal is aborted.
\<close>

record ('i, 'w, 'q, 'h) Component =
  searchQuery :: 'q
  http :: 'h
  embeddingOrigin :: string
  dataView :: DataView
  analysisType :: LogRateAnalysisType
  earliest :: "real option"
  latest :: "real option"
  chartWindowParameters :: "'w option"
  sampleProbability :: real
  isRunning :: bool
  streamErrors :: "string list"
  data :: "'i ResultsState"
  fieldCandidates :: FieldCandidates
  analysisStartTime :: "real option"
  abortCtrl :: ref
  ref_current :: "ref \<Rightarrow> addr"
  signal_aborted :: "addr \<Rightarrow> bool"
  groupResults :: bool
  overrides :: "'i Overrides option"
  shouldStart :: bool
  toggleIdSelected :: string
  skippedFields :: "string list option"
  dispatched :: "('i, 'w, 'h) Action list"
  reported :: "PerformanceMetricEvent list"

definition resultsGroupedOffId :: string where
  "resultsGroupedOffId = ''aiopsLogRateAnalysisGroupingOff''"

definition resultsGroupedOnId :: string where
  "resultsGroupedOnId = ''aiopsLogRateAnalysisGroupingOn''"

definition dispatch ::
  "('i, 'w, 'h) Action \<Rightarrow> ('i, 'w, 'q, 'h) Component \<Rightarrow> ('i, 'w, 'q, 'h) Component" where
  "dispatch a s = s\<lparr>dispatched := dispatched s @ [a]\<rparr>"

text \<open>
  The first render: the initial values of the \<^verbatim>\<open>useRef\<close> and \<^verbatim>\<open>useState\<close> cells.
  \<open>now\<close> is \<^verbatim>\<open>window.performance.now()\<close>, \<open>r\<close> the new ref object and \<open>a\<close> the new
  \<^verbatim>\<open>AbortController\<close>, whose signal is not aborted. \<open>None\<close> in \<open>skippedFields\<close> is
  \<^verbatim>\<open>null\<close>, the uninitialized state.
\<close>

definition firstRender ::
  "real \<Rightarrow> ref \<Rightarrow> addr \<Rightarrow> ('i, 'w, 'q, 'h) Component \<Rightarrow> ('i, 'w, 'q, 'h) Component" where
  "firstRender now r a s =
    s\<lparr>analysisStartTime := Some now,
      abortCtrl := r,
      ref_current := (ref_current s)(r := a),
      signal_aborted := (signal_aborted s)(a := False),
      groupResults := False,
      overrides := None,
      shouldStart := False,
      toggleIdSelected := resultsGroupedOffId,
      skippedFields := None\<rparr>"

definition onGroupResultsToggle ::
  "string \<Rightarrow> ('i, 'w, 'q, 'h) Component \<Rightarrow> ('i, 'w, 'q, 'h) Component" where
  "onGroupResultsToggle optionId s =
    dispatch ClearAllRowState
      (s\<lparr>toggleIdSelected := optionId, groupResults := (optionId = resultsGroupedOnId)\<rparr>)"

text \<open>
  The effect with dependencies \<^verbatim>\<open>[fieldFilterSkippedItems, skippedFields]\<close>: it sets
  the skipped fields only on first load.
\<close>

definition skippedFieldsEffect ::
  "('i, 'w, 'q, 'h) Component \<Rightarrow> ('i, 'w, 'q, 'h) Component" where
  "skippedFieldsEffect s =
    (if skippedFields s = None \<and> length (fieldFilterSkippedItems (fieldCandidates s)) > 0
     then s\<lparr>skippedFields := Some (fieldFilterSkippedItems (fieldCandidates s))\<rparr>
     else s)"

text \<open>
  \<^verbatim>\<open>startHandler(continueAnalysis = false, resetGroupButton = true)\<close>. The handler is a
  closure of one render: what it reads (\<open>r\<close>) is the component as rendered, what it
  writes goes to \<open>s\<close>, the component with the updates made so far in the same event.
\<close>

definition startHandler ::
  "('i, 'w, 'q, 'h) Component \<Rightarrow> bool \<Rightarrow> bool \<Rightarrow> ('i, 'w, 'q, 'h) Component
    \<Rightarrow> ('i, 'w, 'q, 'h) Component" where
  "startHandler r continueAnalysis resetGroupButton s =
    (let s1 =
       (if \<not> continueAnalysis then
          (dispatch ResetResults s)
            \<lparr>overrides := Some
              \<lparr>ov_loaded = None,
               ov_remainingKeywordFieldCandidates = Some
                 (filter (\<lambda>d. case skippedFields r of None \<Rightarrow> True
                               | Some skipped \<Rightarrow> d \<notin> set skipped)
                   (keywordFieldCandidates (fieldCandidates r))),
               ov_remainingTextFieldCandidates = Some
                 (filter (\<lambda>d. case skippedFields r of None \<Rightarrow> True
                               | Some skipped \<Rightarrow> d \<notin> set skipped)
                   (textFieldCandidates (fieldCandidates r))),
               ov_significantItems = None,
               ov_regroupOnly = None\<rparr>\<rparr>
        else s);
         s2 =
       (if resetGroupButton then
          dispatch ClearAllRowState
            (s1\<lparr>groupResults := False, toggleIdSelected := resultsGroupedOffId\<rparr>)
        else s1);
         s3 = dispatch (SetCurrentAnalysisType (analysisType r)) s2;
         s4 = dispatch (SetCurrentAnalysisWindowParameters (chartWindowParameters r)) s3
     in s4\<lparr>shouldStart := True\<rparr>)"

definition onFieldsFilterChange ::
  "string list \<Rightarrow> ('i, 'w, 'q, 'h) Component \<Rightarrow> ('i, 'w, 'q, 'h) Component" where
  "onFieldsFilterChange skippedFieldsUpdate r =
    startHandler r True False
      ((dispatch ResetResults r)
        \<lparr>skippedFields := Some skippedFieldsUpdate,
         overrides := Some
           \<lparr>ov_loaded = Some 0,
            ov_remainingKeywordFieldCandidates = Some
              (filter (\<lambda>d. d \<notin> set skippedFieldsUpdate)
                (keywordFieldCandidates (fieldCandidates r))),
            ov_remainingTextFieldCandidates = Some
              (filter (\<lambda>d. d \<notin> set skippedFieldsUpdate)
                (textFieldCandidates (fieldCandidates r))),
            ov_significantItems = None,
            ov_regroupOnly = Some False\<rparr>\<rparr>)"

text \<open>
  \<^verbatim>\<open>cancelHandler\<close>: \<^verbatim>\<open>abortCtrl.current.abort()\<close> marks the signal of the controller
  the ref holds as aborted, then \<^verbatim>\<open>cancelStream()\<close> is dispatched.
\<close>

definition cancelHandler ::
  "('i, 'w, 'q, 'h) Component \<Rightarrow> ('i, 'w, 'q, 'h) Component" where
  "cancelHandler r =
    dispatch CancelStream
      (r\<lparr>signal_aborted := (signal_aborted r)(ref_current r (abortCtrl r) := True)\<rparr>)"

text \<open>\<^verbatim>\<open>Array.isArray(xs) && xs.length > 0\<close> for a value that is an array or undefined.\<close>

definition isNonEmptyArray :: "'a list option \<Rightarrow> bool" where
  "isNonEmptyArray xs = (case xs of None \<Rightarrow> False | Some ys \<Rightarrow> length ys > 0)"

text \<open>
  The effect with dependencies \<^verbatim>\<open>[isRunning]\<close>; \<open>now\<close> is what
  \<^verbatim>\<open>window.performance.now()\<close> returns when the effect runs. \<^verbatim>\<open>groupsMissing\<close> is an
  optional boolean, truthy exactly when it is \<^verbatim>\<open>true\<close>.
\<close>

definition isRunningEffect ::
  "real \<Rightarrow> ('i, 'w, 'q, 'h) Component \<Rightarrow> ('i, 'w, 'q, 'h) Component" where
  "isRunningEffect now r =
    (if \<not> isRunning r then
       (if loaded (data r) < 1 \<and>
           (isNonEmptyArray (remainingKeywordFieldCandidates (data r)) \<or>
            isNonEmptyArray (remainingTextFieldCandidates (data r)) \<or>
            groupsMissing (data r) = Some True)
        then
          r\<lparr>overrides := Some
            \<lparr>ov_loaded = Some (loaded (data r)),
             ov_remainingKeywordFieldCandidates = remainingKeywordFieldCandidates (data r),
             ov_remainingTextFieldCandidates = remainingTextFieldCandidates (data r),
             ov_significantItems = Some (significantItems (data r)),
             ov_regroupOnly = None\<rparr>\<rparr>
        else if loaded (data r) > 0 then
          (case analysisStartTime r of
             None \<Rightarrow> r\<lparr>overrides := None\<rparr>
           | Some t \<Rightarrow>
               r\<lparr>overrides := None,
                 analysisStartTime := None,
                 reported := reported r @
                   [\<lparr>eventName = ''aiopsLogRateAnalysisCompleted'', duration = now - t\<rparr>]\<rparr>)
        else r)
     else r)"

text \<open>\<^verbatim>\<open>const errors = useMemo(() => [...streamErrors, ...data.errors], ...)\<close>\<close>

definition errors_memo :: "('i, 'w, 'q, 'h) Component \<Rightarrow> string list" where
  "errors_memo r = streamErrors r @ errors (data r)"

text \<open>
  \<^verbatim>\<open>startParams\<close>: \<open>None\<close> is \<^verbatim>\<open>undefined\<close>. \<^verbatim>\<open>!earliest\<close> and \<^verbatim>\<open>!latest\<close> hold for
  an undefined value and for the number 0.
\<close>

definition startParams ::
  "('w, 'q) Imports \<Rightarrow> ('i, 'w, 'q, 'h) Component \<Rightarrow> ('i, 'w, 'h) StartParams option" where
  "startParams imp r =
    (case chartWindowParameters r of
       None \<Rightarrow> None
     | Some cwp \<Rightarrow>
       (case earliest r of
          None \<Rightarrow> None
        | Some e \<Rightarrow>
          (case latest r of
             None \<Rightarrow> None
           | Some l \<Rightarrow>
             if e = 0 \<or> l = 0 then None
             else Some
               \<lparr>sp_http = http r,
                sp_endpoint = ''/internal/aiops/log_rate_analysis'',
                sp_apiVersion = ''3'',
                sp_abortCtrl = abortCtrl r,
                sp_body =
                  \<lparr>body_start = e,
                   body_end = l,
                   body_searchQuery = JSON_stringify imp (searchQuery r),
                   body_timeFieldName =
                     (case timeFieldName (dataView r) of None \<Rightarrow> [] | Some f \<Rightarrow> f),
                   body_index = getIndexPattern (dataView r),
                   body_grouping = True,
                   body_flushFix = True,
                   body_windowParameters =
                     (if analysisType r = SPIKE then cwp
                      else getSwappedWindowParameters imp cwp),
                   body_overrides = overrides r,
                   body_sampleProbability = sampleProbability r\<rparr>,
                sp_headers = [(AIOPS_ANALYSIS_RUN_ORIGIN imp, embeddingOrigin r)]\<rparr>)))"

text \<open>The effect with dependencies \<^verbatim>\<open>[shouldStart]\<close>.\<close>

definition shouldStartEffect ::
  "('w, 'q) Imports \<Rightarrow> ('i, 'w, 'q, 'h) Component \<Rightarrow> ('i, 'w, 'q, 'h) Component" where
  "shouldStartEffect imp r =
    (case startParams imp r of
       None \<Rightarrow> r
     | Some p \<Rightarrow>
         if shouldStart r then (dispatch (StartStream p) r)\<lparr>shouldStart := False\<rparr> else r)"

text \<open>The effect with no dependencies, run once after the first render.\<close>

definition firstRenderEffect ::
  "('w, 'q) Imports \<Rightarrow> ('i, 'w, 'q, 'h) Component \<Rightarrow> ('i, 'w, 'q, 'h) Component" where
  "firstRenderEffect imp r =
    (case startParams imp r of
       None \<Rightarrow> r
     | Some p \<Rightarrow>
         dispatch (StartStream p)
           (dispatch (SetCurrentAnalysisWindowParameters (chartWindowParameters r))
             (dispatch (SetCurrentAnalysisType (analysisType r))
               (dispatch (FetchFieldCandidates p) r))))"

text \<open>
  The error callout of the rendered output: \<open>None\<close> when nothing is rendered in its
  place. \<open>Paragraph\<close> is the \<^verbatim>\<open><p>\<close> with the single error, \<open>UnorderedList\<close> the
  \<^verbatim>\<open><ul>\<close> with one \<^verbatim>\<open><li key={i}>\<close> per error; \<open>tryToContinueButton\<close> tells whether
  the button is part of the callout.
\<close>

datatype ErrorsMarkup = Paragraph string | UnorderedList "(nat \<times> string) list"

record ErrorCallOut =
  errorCount :: nat
  errorsMarkup :: ErrorsMarkup
  tryToContinueButton :: bool

definition renderErrorCallOut :: "('i, 'w, 'q, 'h) Component \<Rightarrow> ErrorCallOut option" where
  "renderErrorCallOut r =
    (if length (errors_memo r) > 0 then
       Some
         \<lparr>errorCount = length (errors_memo r),
          errorsMarkup =
            (if length (errors_memo r) = 1 then Paragraph (errors_memo r ! 0)
             else UnorderedList (enumerate 0 (errors_memo r))),
          tryToContinueButton = (overrides r \<noteq> None)\<rparr>
     else None)"

text \<open>
  The store replaces the field candidates slice; the component renders again and the
  effect on \<^verbatim>\<open>[fieldFilterSkippedItems, skippedFields]\<close> runs.
\<close>

definition fieldCandidatesUpdate ::
  "FieldCandidates \<Rightarrow> ('i, 'w, 'q, 'h) Component \<Rightarrow> ('i, 'w, 'q, 'h) Component" where
  "fieldCandidatesUpdate fc s = skippedFieldsEffect (s\<lparr>fieldCandidates := fc\<rparr>)"

text \<open>
  A concrete component and concrete imports, on which the handlers and effects are
  evaluated below. Window parameters are a baseline window and a deviation window,
  each a pair of bounds.
\<close>

definition exampleImports :: "((real \<times> real) \<times> (real \<times> real), string) Imports" where
  "exampleImports =
    \<lparr>getSwappedWindowParameters = (\<lambda>w. (snd w, fst w)),
     JSON_stringify = (\<lambda>q. q),
     AIOPS_ANALYSIS_RUN_ORIGIN = ''analysis-run-origin''\<rparr>"

definition exampleComponent ::
  "(string, (real \<times> real) \<times> (real \<times> real), string, unit) Component" where
  "exampleComponent =
    \<lparr>searchQuery = ''match_all'',
     http = (),
     embeddingOrigin = ''ml_aiops'',
     dataView = \<lparr>timeFieldName = Some ''timestamp'', getIndexPattern = ''logs''\<rparr>,
     analysisType = SPIKE,
     earliest = Some 1000,
     latest = Some 9000,
     chartWindowParameters = Some ((1000, 4000), (6000, 9000)),
     sampleProbability = 1,
     isRunning = False,
     streamErrors = [],
     data =
       \<lparr>loaded = 1 / 2,
        remainingKeywordFieldCandidates = Some [''host''],
        remainingTextFieldCandidates = Some [],
        groupsMissing = None,
        significantItems = [''status:500''],
        errors = []\<rparr>,
     fieldCandidates =
       \<lparr>isLoading = False,
        fieldFilterUniqueItems = [''agent'', ''host'', ''message'', ''status''],
        fieldFilterSkippedItems = [''agent''],
        keywordFieldCandidates = [''agent'', ''host'', ''status''],
        textFieldCandidates = [''message'']\<rparr>,
     analysisStartTime = Some 5,
     abortCtrl = 0,
     ref_current = (\<lambda>_. 7),
     signal_aborted = (\<lambda>_. False),
     groupResults = True,
     overrides = None,
     shouldStart = False,
     toggleIdSelected = resultsGroupedOnId,
     skippedFields = None,
     dispatched = [],
     reported = []\<rparr>"

section \<open>Properties of the dashboard catalog\<close>

lemma mapping_keys_distinct: "distinct (map fst AGENT_NAME_DASHBOARD_FILE_MAPPING)"
  by (simp add: AGENT_NAME_DASHBOARD_FILE_MAPPING_def)

text \<open>
  Claim C1. The catalog has exactly the nine agent identifiers as keys, each mapped to
  the bundle name the specification gives, and the values of the catalog are exactly
  the five bundle names.
\<close>

theorem mapping_entries_exact:
  "dom (map_of AGENT_NAME_DASHBOARD_FILE_MAPPING) =
     {''nodejs'', ''opentelemetry/nodejs'', ''java'', ''opentelemetry/java'',
      ''opentelemetry/java/opentelemetry-java-instrumentation'',
      ''opentelemetry/java/elastic'', ''opentelemetry/dotnet'',
      ''opentelemetry/dotnet/opentelemetry-dotnet-instrumentation'',
      ''opentelemetry/dotnet/elastic''}
   \<and> length AGENT_NAME_DASHBOARD_FILE_MAPPING = 9
   \<and> map_of AGENT_NAME_DASHBOARD_FILE_MAPPING ''nodejs'' = Some ''nodejs''
   \<and> map_of AGENT_NAME_DASHBOARD_FILE_MAPPING ''opentelemetry/nodejs'' =
         Some ''opentelemetry_nodejs''
   \<and> map_of AGENT_NAME_DASHBOARD_FILE_MAPPING ''java'' = Some ''java''
   \<and> map_of AGENT_NAME_DASHBOARD_FILE_MAPPING ''opentelemetry/java'' =
         Some ''opentelemetry_java''
   \<and> map_of AGENT_NAME_DASHBOARD_FILE_MAPPING
         ''opentelemetry/java/opentelemetry-java-instrumentation'' =
         Some ''opentelemetry_java''
   \<and> map_of AGENT_NAME_DASHBOARD_FILE_MAPPING ''opentelemetry/java/elastic'' =
         Some ''opentelemetry_java''
   \<and> map_of AGENT_NAME_DASHBOARD_FILE_MAPPING ''opentelemetry/dotnet'' =
         Some ''opentelemetry_dotnet''
   \<and> map_of AGENT_NAME_DASHBOARD_FILE_MAPPING
         ''opentelemetry/dotnet/opentelemetry-dotnet-instrumentation'' =
         Some ''opentelemetry_dotnet''
   \<and> map_of AGENT_NAME_DASHBOARD_FILE_MAPPING ''opentelemetry/dotnet/elastic'' =
         Some ''opentelemetry_dotnet''
   \<and> ran (map_of AGENT_NAME_DASHBOARD_FILE_MAPPING) =
         {''nodejs'', ''opentelemetry_nodejs'', ''java'', ''opentelemetry_java'',
          ''opentelemetry_dotnet''}"
proof -
  have keys: "dom (map_of AGENT_NAME_DASHBOARD_FILE_MAPPING) =
     {''nodejs'', ''opentelemetry/nodejs'', ''java'', ''opentelemetry/java'',
      ''opentelemetry/java/opentelemetry-java-instrumentation'',
      ''opentelemetry/java/elastic'', ''opentelemetry/dotnet'',
      ''opentelemetry/dotnet/opentelemetry-dotnet-instrumentation'',
      ''opentelemetry/dotnet/elastic''}"
    unfolding dom_map_of_conv_image_fst
    by (simp add: AGENT_NAME_DASHBOARD_FILE_MAPPING_def)
  have vals: "ran (map_of AGENT_NAME_DASHBOARD_FILE_MAPPING) =
         {''nodejs'', ''opentelemetry_nodejs'', ''java'', ''opentelemetry_java'',
          ''opentelemetry_dotnet''}"
    unfolding ran_distinct [OF mapping_keys_distinct]
    by (simp add: AGENT_NAME_DASHBOARD_FILE_MAPPING_def)
  have lookups:
    "length AGENT_NAME_DASHBOARD_FILE_MAPPING = 9"
    "map_of AGENT_NAME_DASHBOARD_FILE_MAPPING ''nodejs'' = Some ''nodejs''"
    "map_of AGENT_NAME_DASHBOARD_FILE_MAPPING ''opentelemetry/nodejs'' =
       Some ''opentelemetry_nodejs''"
    "map_of AGENT_NAME_DASHBOARD_FILE_MAPPING ''java'' = Some ''java''"
    "map_of AGENT_NAME_DASHBOARD_FILE_MAPPING ''opentelemetry/java'' =
       Some ''opentelemetry_java''"
    "map_of AGENT_NAME_DASHBOARD_FILE_MAPPING
       ''opentelemetry/java/opentelemetry-java-instrumentation'' =
       Some ''opentelemetry_java''"
    "map_of AGENT_NAME_DASHBOARD_FILE_MAPPING ''opentelemetry/java/elastic'' =
       Some ''opentelemetry_java''"
    "map_of AGENT_NAME_DASHBOARD_FILE_MAPPING ''opentelemetry/dotnet'' =
       Some ''opentelemetry_dotnet''"
    "map_of AGENT_NAME_DASHBOARD_FILE_MAPPING
       ''opentelemetry/dotnet/opentelemetry-dotnet-instrumentation'' =
       Some ''opentelemetry_dotnet''"
    "map_of AGENT_NAME_DASHBOARD_FILE_MAPPING ''opentelemetry/dotnet/elastic'' =
       Some ''opentelemetry_dotnet''"
    by (simp_all add: AGENT_NAME_DASHBOARD_FILE_MAPPING_def)
  from keys vals lookups show ?thesis by (intro conjI)
qed

text \<open>
  Claim C2. A filename that is none of the five bundle names takes the default branch
  of \<^verbatim>\<open>loadDashboardFile\<close>, which resolves to no dashboard, and an agent identifier
  that is none of the nine keys has no entry in the catalog.
\<close>

theorem unrecognized_resolves_to_none:
  "(filename \<notin> {''nodejs'', ''opentelemetry_nodejs'', ''java'', ''opentelemetry_java'',
        ''opentelemetry_dotnet''}
      \<longrightarrow> loadDashboardFile filename = None)
   \<and> (agent \<notin> {''nodejs'', ''opentelemetry/nodejs'', ''java'', ''opentelemetry/java'',
        ''opentelemetry/java/opentelemetry-java-instrumentation'',
        ''opentelemetry/java/elastic'', ''opentelemetry/dotnet'',
        ''opentelemetry/dotnet/opentelemetry-dotnet-instrumentation'',
        ''opentelemetry/dotnet/elastic''}
      \<longrightarrow> map_of AGENT_NAME_DASHBOARD_FILE_MAPPING agent = None)"
proof (intro conjI impI)
  assume "filename \<notin> {''nodejs'', ''opentelemetry_nodejs'', ''java'',
    ''opentelemetry_java'', ''opentelemetry_dotnet''}"
  then show "loadDashboardFile filename = None"
    by (simp add: loadDashboardFile_def)
next
  assume "agent \<notin> {''nodejs'', ''opentelemetry/nodejs'', ''java'', ''opentelemetry/java'',
        ''opentelemetry/java/opentelemetry-java-instrumentation'',
        ''opentelemetry/java/elastic'', ''opentelemetry/dotnet'',
        ''opentelemetry/dotnet/opentelemetry-dotnet-instrumentation'',
        ''opentelemetry/dotnet/elastic''}"
  then show "map_of AGENT_NAME_DASHBOARD_FILE_MAPPING agent = None"
    by (simp add: AGENT_NAME_DASHBOARD_FILE_MAPPING_def)
qed

theorem unrecognized_resolves_to_none_witness:
  "''python'' \<notin> {''nodejs'', ''opentelemetry_nodejs'', ''java'', ''opentelemetry_java'',
        ''opentelemetry_dotnet''}
   \<and> loadDashboardFile ''python'' = None
   \<and> ''opentelemetry/python'' \<notin> {''nodejs'', ''opentelemetry/nodejs'', ''java'',
        ''opentelemetry/java'',
        ''opentelemetry/java/opentelemetry-java-instrumentation'',
        ''opentelemetry/java/elastic'', ''opentelemetry/dotnet'',
        ''opentelemetry/dotnet/opentelemetry-dotnet-instrumentation'',
        ''opentelemetry/dotnet/elastic''}
   \<and> map_of AGENT_NAME_DASHBOARD_FILE_MAPPING ''opentelemetry/python'' = None"
  using unrecognized_resolves_to_none [of "''python''" "''opentelemetry/python''"]
  by simp

text \<open>
  Claim C7. For each of the five bundle filenames, \<^verbatim>\<open>loadDashboardFile\<close> returns the
  dynamic import of the JSON module of the same name, \<^verbatim>\<open>./<filename>.json\<close>.
\<close>

theorem loadDashboardFile_bundles:
  "map_option specifier (loadDashboardFile ''nodejs'') = Some ''./nodejs.json''
   \<and> map_option specifier (loadDashboardFile ''opentelemetry_nodejs'') =
         Some ''./opentelemetry_nodejs.json''
   \<and> map_option specifier (loadDashboardFile ''java'') = Some ''./java.json''
   \<and> map_option specifier (loadDashboardFile ''opentelemetry_java'') =
         Some ''./opentelemetry_java.json''
   \<and> map_option specifier (loadDashboardFile ''opentelemetry_dotnet'') =
         Some ''./opentelemetry_dotnet.json''
   \<and> (\<forall>filename \<in> {''nodejs'', ''opentelemetry_nodejs'', ''java'', ''opentelemetry_java'',
          ''opentelemetry_dotnet''}.
        map_option specifier (loadDashboardFile filename) =
          Some (''./'' @ filename @ ''.json''))"
  by (simp add: loadDashboardFile_def)

theorem loadDashboardFile_bundles_witness:
  "''opentelemetry_java'' \<in> {''nodejs'', ''opentelemetry_nodejs'', ''java'',
      ''opentelemetry_java'', ''opentelemetry_dotnet''}
   \<and> loadDashboardFile ''opentelemetry_java'' =
       Some (Import ''lazyJavaDashboard'' ''./opentelemetry_java.json'')
   \<and> map_option specifier (loadDashboardFile ''opentelemetry_java'') =
       Some (''./'' @ ''opentelemetry_java'' @ ''.json'')"
proof -
  have "map_option specifier (loadDashboardFile ''opentelemetry_java'') =
       Some (''./'' @ ''opentelemetry_java'' @ ''.json'')"
    using loadDashboardFile_bundles by blast
  then show ?thesis by (simp add: loadDashboardFile_def)
qed

text \<open>
  Claim C8. Every value of the catalog is one of the five filenames that a non-default
  case of \<^verbatim>\<open>loadDashboardFile\<close> handles: looking an agent identifier up and loading
  the file it names never ends in the default branch.
\<close>

theorem catalogued_agent_loads_dashboard:
  "\<forall>key \<in> dom (map_of AGENT_NAME_DASHBOARD_FILE_MAPPING).
     \<exists>fname imp.
       map_of AGENT_NAME_DASHBOARD_FILE_MAPPING key = Some fname
       \<and> fname \<in> {''nodejs'', ''opentelemetry_nodejs'', ''java'', ''opentelemetry_java'',
            ''opentelemetry_dotnet''}
       \<and> loadDashboardFile fname = Some imp
       \<and> specifier imp = ''./'' @ fname @ ''.json''"
proof
  fix key
  assume "key \<in> dom (map_of AGENT_NAME_DASHBOARD_FILE_MAPPING)"
  then obtain fname where f: "map_of AGENT_NAME_DASHBOARD_FILE_MAPPING key = Some fname"
    by (auto simp: dom_def)
  then have "(key, fname) \<in> set AGENT_NAME_DASHBOARD_FILE_MAPPING"
    by (rule map_of_SomeD)
  then have "snd (key, fname) \<in> snd ` set AGENT_NAME_DASHBOARD_FILE_MAPPING"
    by (rule imageI)
  then have mem: "fname \<in> {''nodejs'', ''opentelemetry_nodejs'', ''java'',
      ''opentelemetry_java'', ''opentelemetry_dotnet''}"
    by (simp add: AGENT_NAME_DASHBOARD_FILE_MAPPING_def)
  then have ld: "loadDashboardFile fname =
      Some (Import (webpackChunkName (the (loadDashboardFile fname)))
        (''./'' @ fname @ ''.json''))"
    by (elim insertE emptyE) (simp_all add: loadDashboardFile_def)
  show "\<exists>fname imp.
       map_of AGENT_NAME_DASHBOARD_FILE_MAPPING key = Some fname
       \<and> fname \<in> {''nodejs'', ''opentelemetry_nodejs'', ''java'', ''opentelemetry_java'',
            ''opentelemetry_dotnet''}
       \<and> loadDashboardFile fname = Some imp
       \<and> specifier imp = ''./'' @ fname @ ''.json''"
  proof (intro exI conjI)
    show "map_of AGENT_NAME_DASHBOARD_FILE_MAPPING key = Some fname" by (rule f)
    show "fname \<in> {''nodejs'', ''opentelemetry_nodejs'', ''java'', ''opentelemetry_java'',
            ''opentelemetry_dotnet''}" by (rule mem)
    show "loadDashboardFile fname =
      Some (Import (webpackChunkName (the (loadDashboardFile fname)))
        (''./'' @ fname @ ''.json''))" by (rule ld)
    show "specifier (Import (webpackChunkName (the (loadDashboardFile fname)))
        (''./'' @ fname @ ''.json'')) = ''./'' @ fname @ ''.json''"
      by (rule dynamic_import.sel)
  qed
qed

theorem catalogued_agent_loads_dashboard_witness:
  "''opentelemetry/dotnet/elastic'' \<in> dom (map_of AGENT_NAME_DASHBOARD_FILE_MAPPING)
   \<and> map_of AGENT_NAME_DASHBOARD_FILE_MAPPING ''opentelemetry/dotnet/elastic'' =
       Some ''opentelemetry_dotnet''
   \<and> map_option specifier (loadDashboardFile ''opentelemetry_dotnet'') =
       Some ''./opentelemetry_dotnet.json''"
proof -
  have m: "map_of AGENT_NAME_DASHBOARD_FILE_MAPPING ''opentelemetry/dotnet/elastic'' =
      Some ''opentelemetry_dotnet''"
    by (simp add: AGENT_NAME_DASHBOARD_FILE_MAPPING_def)
  then have k:
    "''opentelemetry/dotnet/elastic'' \<in> dom (map_of AGENT_NAME_DASHBOARD_FILE_MAPPING)"
    by (rule domI)
  from catalogued_agent_loads_dashboard [THEN bspec, OF k]
  obtain fname imp where
    f: "map_of AGENT_NAME_DASHBOARD_FILE_MAPPING ''opentelemetry/dotnet/elastic'' = Some fname"
    and l: "loadDashboardFile fname = Some imp"
    and s: "specifier imp = ''./'' @ fname @ ''.json''"
    by (elim exE conjE) (rule that)
  from f m have "fname = ''opentelemetry_dotnet''" by simp
  with l s have "map_option specifier (loadDashboardFile ''opentelemetry_dotnet'') =
       Some ''./opentelemetry_dotnet.json''"
    by simp
  with k m show ?thesis by (intro conjI)
qed

section \<open>Properties of the log rate analysis results component\<close>

subsection \<open>Facts shared by the proofs below\<close>

lemma isNonEmptyArray_iff: "isNonEmptyArray xs = (\<exists>ys. xs = Some ys \<and> ys \<noteq> [])"
  by (cases xs) (simp_all add: isNonEmptyArray_def)

lemma startHandler_continue_overrides:
  "overrides (startHandler r True g s) = overrides s"
  by (simp add: startHandler_def dispatch_def Let_def)

lemma startHandler_reads:
  "chartWindowParameters (startHandler r c g s) = chartWindowParameters s"
  "earliest (startHandler r c g s) = earliest s"
  "latest (startHandler r c g s) = latest s"
  by (simp_all add: startHandler_def dispatch_def Let_def)

lemma isRunningEffect_reads:
  "chartWindowParameters (isRunningEffect now r) = chartWindowParameters r"
  "earliest (isRunningEffect now r) = earliest r"
  "latest (isRunningEffect now r) = latest r"
  by (simp_all add: isRunningEffect_def split: option.split)

lemma startParams_defined:
  "chartWindowParameters r = Some cwp \<Longrightarrow> earliest r = Some e \<Longrightarrow> latest r = Some l \<Longrightarrow>
    e \<noteq> 0 \<Longrightarrow> l \<noteq> 0 \<Longrightarrow> \<exists>p. startParams imp r = Some p"
  by (simp add: startParams_def)

lemma startParams_body_overrides:
  "startParams imp r = Some p \<Longrightarrow> body_overrides (sp_body p) = overrides r"
  by (auto simp: startParams_def split: option.splits if_splits)

lemma startParams_abortCtrl:
  "startParams imp r = Some p \<Longrightarrow> sp_abortCtrl p = abortCtrl r"
  by (auto simp: startParams_def split: option.splits if_splits)

lemma shouldStartEffect_starts:
  "startParams imp r = Some p \<Longrightarrow> shouldStart r \<Longrightarrow>
    shouldStartEffect imp r = (dispatch (StartStream p) r)\<lparr>shouldStart := False\<rparr>"
  by (simp add: shouldStartEffect_def)

lemma enumerate_map_snd: "map snd (enumerate n xs) = xs"
  by (induction xs arbitrary: n) simp_all

lemma fold_fieldCandidatesUpdate_keeps:
  "skippedFields s = Some sel \<Longrightarrow>
    skippedFields (fold fieldCandidatesUpdate updates s) = Some sel"
proof (induction updates arbitrary: s)
  case Nil
  then show ?case by simp
next
  case (Cons fc updates)
  from Cons.prems have "skippedFields (fieldCandidatesUpdate fc s) = Some sel"
    by (simp add: fieldCandidatesUpdate_def skippedFieldsEffect_def)
  then show ?case
    by (simp add: Cons.IH)
qed

subsection \<open>Overrides when the stream stops\<close>

text \<open>
  Claim C3. When the effect on \<^verbatim>\<open>[isRunning]\<close> runs with the stream not running: if
  the results have \<^verbatim>\<open>loaded < 1\<close> and a non-empty array of remaining keyword field
  candidates, a non-empty array of remaining text field candidates, or
  \<^verbatim>\<open>groupsMissing\<close> set, the overrides become the current \<^verbatim>\<open>loaded\<close>, both
  remaining candidate lists and the significant items, and a start that continues the
  analysis sends exactly these overrides in its request body; otherwise, if
  \<^verbatim>\<open>loaded > 0\<close>, the overrides are reset to \<^verbatim>\<open>undefined\<close>.
\<close>

theorem isRunningEffect_overrides:
  assumes "\<not> isRunning r"
  shows
    "(loaded (data r) < 1 \<and>
        ((\<exists>ks. remainingKeywordFieldCandidates (data r) = Some ks \<and> ks \<noteq> []) \<or>
         (\<exists>ts. remainingTextFieldCandidates (data r) = Some ts \<and> ts \<noteq> []) \<or>
         groupsMissing (data r) = Some True)
      \<longrightarrow> overrides (isRunningEffect now r) = Some
            \<lparr>ov_loaded = Some (loaded (data r)),
             ov_remainingKeywordFieldCandidates = remainingKeywordFieldCandidates (data r),
             ov_remainingTextFieldCandidates = remainingTextFieldCandidates (data r),
             ov_significantItems = Some (significantItems (data r)),
             ov_regroupOnly = None\<rparr>
          \<and> (\<forall>p g. startParams imp
                 (startHandler (isRunningEffect now r) True g (isRunningEffect now r)) = Some p
               \<longrightarrow> body_overrides (sp_body p) = overrides (isRunningEffect now r)))
     \<and> (\<not> (loaded (data r) < 1 \<and>
           ((\<exists>ks. remainingKeywordFieldCandidates (data r) = Some ks \<and> ks \<noteq> []) \<or>
            (\<exists>ts. remainingTextFieldCandidates (data r) = Some ts \<and> ts \<noteq> []) \<or>
            groupsMissing (data r) = Some True))
         \<and> loaded (data r) > 0
      \<longrightarrow> overrides (isRunningEffect now r) = None)"
proof -
  have resume: "\<forall>p g. startParams imp
        (startHandler (isRunningEffect now r) True g (isRunningEffect now r)) = Some p
      \<longrightarrow> body_overrides (sp_body p) = overrides (isRunningEffect now r)"
    by (simp add: startParams_body_overrides startHandler_continue_overrides)
  have "(loaded (data r) < 1 \<and>
        ((\<exists>ks. remainingKeywordFieldCandidates (data r) = Some ks \<and> ks \<noteq> []) \<or>
         (\<exists>ts. remainingTextFieldCandidates (data r) = Some ts \<and> ts \<noteq> []) \<or>
         groupsMissing (data r) = Some True)
      \<longrightarrow> overrides (isRunningEffect now r) = Some
            \<lparr>ov_loaded = Some (loaded (data r)),
             ov_remainingKeywordFieldCandidates = remainingKeywordFieldCandidates (data r),
             ov_remainingTextFieldCandidates = remainingTextFieldCandidates (data r),
             ov_significantItems = Some (significantItems (data r)),
             ov_regroupOnly = None\<rparr>)
     \<and> (\<not> (loaded (data r) < 1 \<and>
           ((\<exists>ks. remainingKeywordFieldCandidates (data r) = Some ks \<and> ks \<noteq> []) \<or>
            (\<exists>ts. remainingTextFieldCandidates (data r) = Some ts \<and> ts \<noteq> []) \<or>
            groupsMissing (data r) = Some True))
         \<and> loaded (data r) > 0
      \<longrightarrow> overrides (isRunningEffect now r) = None)"
    using assms
    by (auto simp: isRunningEffect_def isNonEmptyArray_iff split: option.split)
  with resume show ?thesis by blast
qed

theorem isRunningEffect_overrides_witness:
  "\<not> isRunning exampleComponent
   \<and> loaded (data exampleComponent) < 1
   \<and> remainingKeywordFieldCandidates (data exampleComponent) = Some [''host'']
   \<and> overrides (isRunningEffect 12 exampleComponent) = Some
        \<lparr>ov_loaded = Some (1 / 2),
         ov_remainingKeywordFieldCandidates = Some [''host''],
         ov_remainingTextFieldCandidates = Some [],
         ov_significantItems = Some [''status:500''],
         ov_regroupOnly = None\<rparr>
   \<and> (\<exists>p. startParams exampleImports
          (startHandler (isRunningEffect 12 exampleComponent) True True
            (isRunningEffect 12 exampleComponent)) = Some p
        \<and> body_overrides (sp_body p) = Some
            \<lparr>ov_loaded = Some (1 / 2),
             ov_remainingKeywordFieldCandidates = Some [''host''],
             ov_remainingTextFieldCandidates = Some [],
             ov_significantItems = Some [''status:500''],
             ov_regroupOnly = None\<rparr>)
   \<and> loaded (data (exampleComponent\<lparr>data := (data exampleComponent)\<lparr>loaded := 1\<rparr>\<rparr>)) > 0
   \<and> overrides (isRunningEffect 12
        (exampleComponent\<lparr>data := (data exampleComponent)\<lparr>loaded := 1\<rparr>,
           overrides := Some \<lparr>ov_loaded = Some 0, ov_remainingKeywordFieldCandidates = None,
             ov_remainingTextFieldCandidates = None, ov_significantItems = None,
             ov_regroupOnly = None\<rparr>\<rparr>)) = None"
proof -
  let ?stopped = "isRunningEffect 12 exampleComponent"
  have a: "\<not> isRunning exampleComponent"
    by (simp add: exampleComponent_def)
  have b: "loaded (data exampleComponent) < 1"
    "remainingKeywordFieldCandidates (data exampleComponent) = Some [''host'']"
    "remainingTextFieldCandidates (data exampleComponent) = Some []"
    "significantItems (data exampleComponent) = [''status:500'']"
    "loaded (data exampleComponent) = 1 / 2"
    by (simp_all add: exampleComponent_def)
  have partial: "loaded (data exampleComponent) < 1 \<and>
        ((\<exists>ks. remainingKeywordFieldCandidates (data exampleComponent) = Some ks \<and> ks \<noteq> []) \<or>
         (\<exists>ts. remainingTextFieldCandidates (data exampleComponent) = Some ts \<and> ts \<noteq> []) \<or>
         groupsMissing (data exampleComponent) = Some True)"
    by (simp add: b)
  note inst = isRunningEffect_overrides [OF a, of 12 exampleImports,
      THEN conjunct1, THEN mp, OF partial]
  from inst [THEN conjunct1] have ov: "overrides ?stopped = Some
        \<lparr>ov_loaded = Some (1 / 2),
         ov_remainingKeywordFieldCandidates = Some [''host''],
         ov_remainingTextFieldCandidates = Some [],
         ov_significantItems = Some [''status:500''],
         ov_regroupOnly = None\<rparr>"
    by (simp only: b)
  have reads: "chartWindowParameters exampleComponent = Some ((1000, 4000), (6000, 9000))"
    "earliest exampleComponent = Some 1000" "latest exampleComponent = Some 9000"
    by (simp_all add: exampleComponent_def)
  have "\<exists>p. startParams exampleImports (startHandler ?stopped True True ?stopped) = Some p"
    by (rule startParams_defined [where cwp = "((1000, 4000), (6000, 9000))"
          and e = 1000 and l = 9000])
      (simp_all add: startHandler_reads isRunningEffect_reads reads)
  then obtain p where
    p: "startParams exampleImports (startHandler ?stopped True True ?stopped) = Some p" ..
  from inst [THEN conjunct2, rule_format, OF p]
  have "body_overrides (sp_body p) = overrides ?stopped" .
  then have bo: "body_overrides (sp_body p) = Some
            \<lparr>ov_loaded = Some (1 / 2),
             ov_remainingKeywordFieldCandidates = Some [''host''],
             ov_remainingTextFieldCandidates = Some [],
             ov_significantItems = Some [''status:500''],
             ov_regroupOnly = None\<rparr>"
    by (simp only: ov)
  have resume: "\<exists>p. startParams exampleImports
          (startHandler ?stopped True True ?stopped) = Some p
        \<and> body_overrides (sp_body p) = Some
            \<lparr>ov_loaded = Some (1 / 2),
             ov_remainingKeywordFieldCandidates = Some [''host''],
             ov_remainingTextFieldCandidates = Some [],
             ov_significantItems = Some [''status:500''],
             ov_regroupOnly = None\<rparr>"
  proof (intro exI conjI)
    show "startParams exampleImports
          (startHandler ?stopped True True ?stopped) = Some p"
      by (rule p)
    show "body_overrides (sp_body p) = Some
            \<lparr>ov_loaded = Some (1 / 2),
             ov_remainingKeywordFieldCandidates = Some [''host''],
             ov_remainingTextFieldCandidates = Some [],
             ov_significantItems = Some [''status:500''],
             ov_regroupOnly = None\<rparr>"
      by (rule bo)
  qed
  let ?done = "exampleComponent\<lparr>data := (data exampleComponent)\<lparr>loaded := 1\<rparr>,
           overrides := Some \<lparr>ov_loaded = Some 0, ov_remainingKeywordFieldCandidates = None,
             ov_remainingTextFieldCandidates = None, ov_significantItems = None,
             ov_regroupOnly = None\<rparr>\<rparr>"
  have a': "\<not> isRunning ?done"
    by (simp add: exampleComponent_def)
  have c: "loaded (data (exampleComponent\<lparr>data := (data exampleComponent)\<lparr>loaded := 1\<rparr>\<rparr>)) > 0"
    by simp
  have d: "overrides (isRunningEffect 12 ?done) = None"
    using isRunningEffect_overrides [OF a', of 12 exampleImports] by simp
  from a b(1,2) ov resume c d show ?thesis by (intro conjI)
qed

subsection \<open>The error callout\<close>

text \<open>
  Claim C4. The errors shown are the stream errors followed by the errors of the
  result data; the callout is rendered if and only if that list is not empty; a single
  error is a paragraph, several errors are a list with one entry per error, in order;
  and the button to continue the analysis is in the callout exactly when the overrides
  are defined.
\<close>

theorem error_callout_rendering:
  "errors_memo r = streamErrors r @ errors (data r)
   \<and> (renderErrorCallOut r \<noteq> None) = (errors_memo r \<noteq> [])
   \<and> (\<forall>c. renderErrorCallOut r = Some c \<longrightarrow>
         errorCount c = length (errors_memo r)
         \<and> (\<forall>e. errors_memo r = [e] \<longrightarrow> errorsMarkup c = Paragraph e)
         \<and> (length (errors_memo r) > 1 \<longrightarrow>
              (\<exists>items. errorsMarkup c = UnorderedList items
                 \<and> map snd items = errors_memo r
                 \<and> map fst items = [0 ..< length (errors_memo r)]))
         \<and> tryToContinueButton c = (overrides r \<noteq> None))"
proof (intro conjI allI impI)
  show "errors_memo r = streamErrors r @ errors (data r)"
    by (simp add: errors_memo_def)
  show "(renderErrorCallOut r \<noteq> None) = (errors_memo r \<noteq> [])"
    by (simp add: renderErrorCallOut_def)
next
  fix c
  assume c: "renderErrorCallOut r = Some c"
  then have ne: "errors_memo r \<noteq> []"
    by (auto simp: renderErrorCallOut_def split: if_splits)
  with c have c_eq: "c =
         \<lparr>errorCount = length (errors_memo r),
          errorsMarkup =
            (if length (errors_memo r) = 1 then Paragraph (errors_memo r ! 0)
             else UnorderedList (enumerate 0 (errors_memo r))),
          tryToContinueButton = (overrides r \<noteq> None)\<rparr>"
    by (simp add: renderErrorCallOut_def)
  show "errorCount c = length (errors_memo r)"
    by (simp add: c_eq)
  show "tryToContinueButton c = (overrides r \<noteq> None)"
    by (simp add: c_eq)
  show "errorsMarkup c = Paragraph e" if "errors_memo r = [e]" for e
    using that by (simp add: c_eq)
  show "\<exists>items. errorsMarkup c = UnorderedList items
      \<and> map snd items = errors_memo r
      \<and> map fst items = [0 ..< length (errors_memo r)]"
    if "length (errors_memo r) > 1"
    using that by (simp add: c_eq enumerate_map_snd)
qed

theorem error_callout_rendering_witness:
  "renderErrorCallOut
     (exampleComponent\<lparr>streamErrors := [''stream closed''],
        overrides := Some \<lparr>ov_loaded = Some 0, ov_remainingKeywordFieldCandidates = None,
          ov_remainingTextFieldCandidates = None, ov_significantItems = None,
          ov_regroupOnly = None\<rparr>\<rparr>) =
     Some \<lparr>errorCount = 1, errorsMarkup = Paragraph ''stream closed'',
           tryToContinueButton = True\<rparr>
   \<and> renderErrorCallOut
     (exampleComponent\<lparr>streamErrors := [''stream closed''],
        data := (data exampleComponent)\<lparr>errors := [''shard failure'']\<rparr>\<rparr>) =
     Some \<lparr>errorCount = 2,
           errorsMarkup = UnorderedList [(0, ''stream closed''), (1, ''shard failure'')],
           tryToContinueButton = False\<rparr>
   \<and> renderErrorCallOut exampleComponent = None"
proof -
  let ?one = "exampleComponent\<lparr>streamErrors := [''stream closed''],
        overrides := Some \<lparr>ov_loaded = Some 0, ov_remainingKeywordFieldCandidates = None,
          ov_remainingTextFieldCandidates = None, ov_significantItems = None,
          ov_regroupOnly = None\<rparr>\<rparr>"
  let ?two = "exampleComponent\<lparr>streamErrors := [''stream closed''],
        data := (data exampleComponent)\<lparr>errors := [''shard failure'']\<rparr>\<rparr>"
  have e1: "errors_memo ?one = [''stream closed'']"
    by (simp add: errors_memo_def exampleComponent_def)
  have e2: "errors_memo ?two = [''stream closed'', ''shard failure'']"
    by (simp add: errors_memo_def exampleComponent_def)
  have e0: "errors_memo exampleComponent = []"
    by (simp add: errors_memo_def exampleComponent_def)
  from error_callout_rendering [of ?one] e1
  obtain c1 where c1: "renderErrorCallOut ?one = Some c1"
    by auto
  with error_callout_rendering [of ?one] e1
  have "errorCount c1 = 1" "errorsMarkup c1 = Paragraph ''stream closed''"
    "tryToContinueButton c1 = True"
    by simp_all
  then have c1_eq: "c1 = \<lparr>errorCount = 1, errorsMarkup = Paragraph ''stream closed'',
           tryToContinueButton = True\<rparr>"
    by (cases c1) simp
  have ov2: "overrides ?two = None"
    by (simp add: exampleComponent_def)
  from error_callout_rendering [of ?two] e2
  obtain c2 where c2: "renderErrorCallOut ?two = Some c2"
    by auto
  with error_callout_rendering [of ?two] e2 ov2
  obtain items where "errorCount c2 = 2" "errorsMarkup c2 = UnorderedList items"
    "map snd items = [''stream closed'', ''shard failure'']" "map fst items = [0, Suc 0]"
    "tryToContinueButton c2 = False"
    by auto
  moreover from this have "items = [(0, ''stream closed''), (1, ''shard failure'')]"
    by (auto simp: map_eq_Cons_conv)
  ultimately have c2_eq: "c2 = \<lparr>errorCount = 2,
           errorsMarkup = UnorderedList [(0, ''stream closed''), (1, ''shard failure'')],
           tryToContinueButton = False\<rparr>"
    by (cases c2) simp
  from error_callout_rendering [of exampleComponent] e0
  have "renderErrorCallOut exampleComponent = None"
    by simp
  with c1 c1_eq c2 c2_eq show ?thesis by simp
qed

subsection \<open>Applying a field filter\<close>

text \<open>
  Claim C5. \<^verbatim>\<open>onFieldsFilterChange\<close> with the skipped fields \<open>S\<close> dispatches
  \<^verbatim>\<open>resetResults\<close>, records \<open>S\<close> as the skipped fields, sets the overrides to
  \<^verbatim>\<open>loaded = 0\<close>, \<^verbatim>\<open>regroupOnly = false\<close> and the current keyword and text field
  candidates without the members of \<open>S\<close>, and restarts the analysis in continue mode:
  no further reset, the grouping toggle unchanged, \<^verbatim>\<open>shouldStart\<close> set, so that the
  effect on \<^verbatim>\<open>[shouldStart]\<close> starts the stream with these overrides whenever the
  start parameters are defined.
\<close>

theorem onFieldsFilterChange_restarts:
  "dispatched (onFieldsFilterChange S r) =
     dispatched r @
       [ResetResults, SetCurrentAnalysisType (analysisType r),
        SetCurrentAnalysisWindowParameters (chartWindowParameters r)]
   \<and> skippedFields (onFieldsFilterChange S r) = Some S
   \<and> overrides (onFieldsFilterChange S r) = Some
        \<lparr>ov_loaded = Some 0,
         ov_remainingKeywordFieldCandidates =
           Some (filter (\<lambda>d. d \<notin> set S) (keywordFieldCandidates (fieldCandidates r))),
         ov_remainingTextFieldCandidates =
           Some (filter (\<lambda>d. d \<notin> set S) (textFieldCandidates (fieldCandidates r))),
         ov_significantItems = None,
         ov_regroupOnly = Some False\<rparr>
   \<and> set (filter (\<lambda>d. d \<notin> set S) (keywordFieldCandidates (fieldCandidates r))) =
       set (keywordFieldCandidates (fieldCandidates r)) - set S
   \<and> set (filter (\<lambda>d. d \<notin> set S) (textFieldCandidates (fieldCandidates r))) =
       set (textFieldCandidates (fieldCandidates r)) - set S
   \<and> shouldStart (onFieldsFilterChange S r)
   \<and> groupResults (onFieldsFilterChange S r) = groupResults r
   \<and> toggleIdSelected (onFieldsFilterChange S r) = toggleIdSelected r
   \<and> (\<forall>p. startParams imp (onFieldsFilterChange S r) = Some p \<longrightarrow>
         body_overrides (sp_body p) = overrides (onFieldsFilterChange S r)
         \<and> dispatched (shouldStartEffect imp (onFieldsFilterChange S r)) =
             dispatched (onFieldsFilterChange S r) @ [StartStream p]
         \<and> \<not> shouldStart (shouldStartEffect imp (onFieldsFilterChange S r)))"
proof -
  have handler:
    "dispatched (onFieldsFilterChange S r) =
       dispatched r @
         [ResetResults, SetCurrentAnalysisType (analysisType r),
          SetCurrentAnalysisWindowParameters (chartWindowParameters r)]"
    "skippedFields (onFieldsFilterChange S r) = Some S"
    "overrides (onFieldsFilterChange S r) = Some
        \<lparr>ov_loaded = Some 0,
         ov_remainingKeywordFieldCandidates =
           Some (filter (\<lambda>d. d \<notin> set S) (keywordFieldCandidates (fieldCandidates r))),
         ov_remainingTextFieldCandidates =
           Some (filter (\<lambda>d. d \<notin> set S) (textFieldCandidates (fieldCandidates r))),
         ov_significantItems = None,
         ov_regroupOnly = Some False\<rparr>"
    "shouldStart (onFieldsFilterChange S r)"
    "groupResults (onFieldsFilterChange S r) = groupResults r"
    "toggleIdSelected (onFieldsFilterChange S r) = toggleIdSelected r"
    by (simp_all add: onFieldsFilterChange_def startHandler_def dispatch_def Let_def)
  have sets:
    "set (filter (\<lambda>d. d \<notin> set S) xs) = set xs - set S" for xs :: "string list"
    by auto
  have start: "\<forall>p. startParams imp (onFieldsFilterChange S r) = Some p \<longrightarrow>
         body_overrides (sp_body p) = overrides (onFieldsFilterChange S r)
         \<and> dispatched (shouldStartEffect imp (onFieldsFilterChange S r)) =
             dispatched (onFieldsFilterChange S r) @ [StartStream p]
         \<and> \<not> shouldStart (shouldStartEffect imp (onFieldsFilterChange S r))"
  proof (intro allI impI)
    fix p
    assume p: "startParams imp (onFieldsFilterChange S r) = Some p"
    from shouldStartEffect_starts [OF p handler(4)] startParams_body_overrides [OF p]
    show "body_overrides (sp_body p) = overrides (onFieldsFilterChange S r)
         \<and> dispatched (shouldStartEffect imp (onFieldsFilterChange S r)) =
             dispatched (onFieldsFilterChange S r) @ [StartStream p]
         \<and> \<not> shouldStart (shouldStartEffect imp (onFieldsFilterChange S r))"
      by (simp add: dispatch_def)
  qed
  from handler sets start show ?thesis by (intro conjI)
qed

theorem onFieldsFilterChange_restarts_witness:
  "overrides (onFieldsFilterChange [''host''] exampleComponent) = Some
        \<lparr>ov_loaded = Some 0,
         ov_remainingKeywordFieldCandidates = Some [''agent'', ''status''],
         ov_remainingTextFieldCandidates = Some [''message''],
         ov_significantItems = None,
         ov_regroupOnly = Some False\<rparr>
   \<and> groupResults (onFieldsFilterChange [''host''] exampleComponent)
   \<and> (\<exists>p. startParams exampleImports (onFieldsFilterChange [''host''] exampleComponent) =
          Some p
        \<and> body_overrides (sp_body p) = Some
            \<lparr>ov_loaded = Some 0,
             ov_remainingKeywordFieldCandidates = Some [''agent'', ''status''],
             ov_remainingTextFieldCandidates = Some [''message''],
             ov_significantItems = None,
             ov_regroupOnly = Some False\<rparr>
        \<and> dispatched (shouldStartEffect exampleImports
              (onFieldsFilterChange [''host''] exampleComponent)) =
            [ResetResults, SetCurrentAnalysisType SPIKE,
             SetCurrentAnalysisWindowParameters (Some ((1000, 4000), (6000, 9000))),
             StartStream p])"
proof -
  let ?r = "onFieldsFilterChange [''host''] exampleComponent"
  note inst = onFieldsFilterChange_restarts [of "[''host'']" exampleComponent exampleImports]
  have ex: "keywordFieldCandidates (fieldCandidates exampleComponent) =
      [''agent'', ''host'', ''status'']"
    "textFieldCandidates (fieldCandidates exampleComponent) = [''message'']"
    "dispatched exampleComponent = []"
    "analysisType exampleComponent = SPIKE"
    "chartWindowParameters exampleComponent = Some ((1000, 4000), (6000, 9000))"
    "groupResults exampleComponent"
    by (simp_all add: exampleComponent_def)
  from inst have ov: "overrides ?r = Some
        \<lparr>ov_loaded = Some 0,
         ov_remainingKeywordFieldCandidates = Some [''agent'', ''status''],
         ov_remainingTextFieldCandidates = Some [''message''],
         ov_significantItems = None,
         ov_regroupOnly = Some False\<rparr>"
    by (simp add: ex)
  from inst have gr: "groupResults ?r"
    by (simp add: ex)
  from inst have ds: "dispatched ?r =
      [ResetResults, SetCurrentAnalysisType SPIKE,
       SetCurrentAnalysisWindowParameters (Some ((1000, 4000), (6000, 9000)))]"
    by (simp add: ex)
  have "\<exists>p. startParams exampleImports ?r = Some p"
    by (simp add: startParams_def onFieldsFilterChange_def startHandler_def dispatch_def
        Let_def exampleComponent_def)
  then obtain p where p: "startParams exampleImports ?r = Some p" ..
  from inst p have st: "body_overrides (sp_body p) = overrides ?r"
    "dispatched (shouldStartEffect exampleImports ?r) = dispatched ?r @ [StartStream p]"
    by simp_all
  have "\<exists>p. startParams exampleImports ?r = Some p
      \<and> body_overrides (sp_body p) = Some
            \<lparr>ov_loaded = Some 0,
             ov_remainingKeywordFieldCandidates = Some [''agent'', ''status''],
             ov_remainingTextFieldCandidates = Some [''message''],
             ov_significantItems = None,
             ov_regroupOnly = Some False\<rparr>
      \<and> dispatched (shouldStartEffect exampleImports ?r) =
            [ResetResults, SetCurrentAnalysisType SPIKE,
             SetCurrentAnalysisWindowParameters (Some ((1000, 4000), (6000, 9000))),
             StartStream p]"
  proof (intro exI conjI)
    show "startParams exampleImports ?r = Some p"
      by (rule p)
    from st ov ds show "body_overrides (sp_body p) = Some
            \<lparr>ov_loaded = Some 0,
             ov_remainingKeywordFieldCandidates = Some [''agent'', ''status''],
             ov_remainingTextFieldCandidates = Some [''message''],
             ov_significantItems = None,
             ov_regroupOnly = Some False\<rparr>"
      by simp
    from st ov ds show "dispatched (shouldStartEffect exampleImports ?r) =
            [ResetResults, SetCurrentAnalysisType SPIKE,
             SetCurrentAnalysisWindowParameters (Some ((1000, 4000), (6000, 9000))),
             StartStream p]"
      by simp
  qed
  with ov gr show ?thesis by (intro conjI)
qed

subsection \<open>Cancelling\<close>

text \<open>
  Claim C6. \<^verbatim>\<open>cancelHandler\<close> aborts the signal of the controller the ref
  \<^verbatim>\<open>abortCtrl\<close> holds, which is the ref handed to the streaming client in the start
  parameters, and dispatches \<^verbatim>\<open>cancelStream\<close>; it changes nothing else of the
  component and aborts no other controller.
\<close>

theorem cancelHandler_aborts:
  "signal_aborted (cancelHandler r) (ref_current r (abortCtrl r))
   \<and> dispatched (cancelHandler r) = dispatched r @ [CancelStream]
   \<and> cancelHandler r =
       r\<lparr>signal_aborted := (signal_aborted r)(ref_current r (abortCtrl r) := True),
         dispatched := dispatched r @ [CancelStream]\<rparr>
   \<and> (\<forall>a. a \<noteq> ref_current r (abortCtrl r) \<longrightarrow>
         signal_aborted (cancelHandler r) a = signal_aborted r a)
   \<and> (\<forall>p. startParams imp r = Some p \<longrightarrow>
         sp_abortCtrl p = abortCtrl (cancelHandler r)
         \<and> signal_aborted (cancelHandler r)
             (ref_current (cancelHandler r) (sp_abortCtrl p)))"
  by (auto simp: cancelHandler_def dispatch_def dest: startParams_abortCtrl)

theorem cancelHandler_aborts_witness:
  "\<not> signal_aborted exampleComponent 7
   \<and> signal_aborted (cancelHandler exampleComponent) 7
   \<and> (8::nat) \<noteq> ref_current exampleComponent (abortCtrl exampleComponent)
   \<and> \<not> signal_aborted (cancelHandler exampleComponent) 8
   \<and> dispatched (cancelHandler exampleComponent) = [CancelStream]
   \<and> (\<exists>p. startParams exampleImports exampleComponent = Some p
        \<and> sp_abortCtrl p = 0
        \<and> ref_current (cancelHandler exampleComponent) (sp_abortCtrl p) = 7
        \<and> signal_aborted (cancelHandler exampleComponent)
             (ref_current (cancelHandler exampleComponent) (sp_abortCtrl p)))"
proof -
  note inst = cancelHandler_aborts [of exampleComponent exampleImports]
  have ex: "abortCtrl exampleComponent = 0" "ref_current exampleComponent 0 = 7"
    "\<not> signal_aborted exampleComponent 7" "\<not> signal_aborted exampleComponent 8"
    "dispatched exampleComponent = []"
    by (simp_all add: exampleComponent_def)
  from inst have "signal_aborted (cancelHandler exampleComponent)
      (ref_current exampleComponent (abortCtrl exampleComponent))"
    by (elim conjE)
  then have a: "signal_aborted (cancelHandler exampleComponent) 7"
    by (simp add: ex)
  from inst have "\<forall>a. a \<noteq> ref_current exampleComponent (abortCtrl exampleComponent) \<longrightarrow>
         signal_aborted (cancelHandler exampleComponent) a = signal_aborted exampleComponent a"
    by (elim conjE)
  then have b: "\<not> signal_aborted (cancelHandler exampleComponent) 8"
    by (simp add: ex)
  from inst have "dispatched (cancelHandler exampleComponent) =
      dispatched exampleComponent @ [CancelStream]"
    by (elim conjE)
  then have d: "dispatched (cancelHandler exampleComponent) = [CancelStream]"
    by (simp add: ex)
  have "\<exists>p. startParams exampleImports exampleComponent = Some p"
    by (simp add: startParams_def exampleComponent_def)
  then obtain p where p: "startParams exampleImports exampleComponent = Some p" ..
  from inst have "\<forall>p. startParams exampleImports exampleComponent = Some p \<longrightarrow>
         sp_abortCtrl p = abortCtrl (cancelHandler exampleComponent)
         \<and> signal_aborted (cancelHandler exampleComponent)
             (ref_current (cancelHandler exampleComponent) (sp_abortCtrl p))"
    by (elim conjE)
  with p have q: "sp_abortCtrl p = abortCtrl (cancelHandler exampleComponent)"
    "signal_aborted (cancelHandler exampleComponent)
             (ref_current (cancelHandler exampleComponent) (sp_abortCtrl p))"
    by blast+
  have c: "abortCtrl (cancelHandler exampleComponent) = 0"
    "ref_current (cancelHandler exampleComponent) 0 = 7"
    by (simp_all add: cancelHandler_def dispatch_def exampleComponent_def)
  have "\<exists>p. startParams exampleImports exampleComponent = Some p
        \<and> sp_abortCtrl p = 0
        \<and> ref_current (cancelHandler exampleComponent) (sp_abortCtrl p) = 7
        \<and> signal_aborted (cancelHandler exampleComponent)
             (ref_current (cancelHandler exampleComponent) (sp_abortCtrl p))"
  proof (intro exI conjI)
    from p q c show "startParams exampleImports exampleComponent = Some p"
      by simp
    from p q c show "sp_abortCtrl p = 0"
      by simp
    from p q c show "ref_current (cancelHandler exampleComponent) (sp_abortCtrl p) = 7"
      by simp
    from p q c show "signal_aborted (cancelHandler exampleComponent)
             (ref_current (cancelHandler exampleComponent) (sp_abortCtrl p))"
      by simp
  qed
  moreover have "(8::nat) \<noteq> ref_current exampleComponent (abortCtrl exampleComponent)"
    by (simp add: ex)
  ultimately show ?thesis using ex(3) a b d by (intro conjI)
qed

subsection \<open>The start parameters\<close>

text \<open>
  Claim C9. The request body holds the chart window parameters as they are for a
  spike and \<^verbatim>\<open>getSwappedWindowParameters\<close> of them for a dip; \<^verbatim>\<open>startParams\<close> is
  undefined whenever the chart window parameters, \<^verbatim>\<open>earliest\<close> or \<^verbatim>\<open>latest\<close> is
  missing, and with undefined start parameters neither effect starts a stream.
\<close>

theorem startParams_window_parameters:
  "(chartWindowParameters r = None \<or> earliest r = None \<or> latest r = None
      \<longrightarrow> startParams imp r = None)
   \<and> (startParams imp r = None
      \<longrightarrow> shouldStartEffect imp r = r \<and> firstRenderEffect imp r = r)
   \<and> (\<forall>cwp e l. chartWindowParameters r = Some cwp \<and> earliest r = Some e \<and> latest r = Some l
        \<and> e \<noteq> 0 \<and> l \<noteq> 0
      \<longrightarrow> (\<exists>p. startParams imp r = Some p
            \<and> (analysisType r = SPIKE \<longrightarrow> body_windowParameters (sp_body p) = cwp)
            \<and> (analysisType r = DIP \<longrightarrow>
                 body_windowParameters (sp_body p) = getSwappedWindowParameters imp cwp)))
   \<and> (\<forall>p. startParams imp r = Some p
      \<longrightarrow> (\<exists>cwp. chartWindowParameters r = Some cwp
            \<and> body_windowParameters (sp_body p) =
                (case analysisType r of SPIKE \<Rightarrow> cwp
                 | DIP \<Rightarrow> getSwappedWindowParameters imp cwp)))"
  by (cases "analysisType r")
    (auto simp: startParams_def shouldStartEffect_def firstRenderEffect_def
      split: option.splits if_splits)

theorem startParams_window_parameters_witness:
  "(\<exists>p. startParams exampleImports exampleComponent = Some p
        \<and> body_windowParameters (sp_body p) = ((1000, 4000), (6000, 9000)))
   \<and> (\<exists>p. startParams exampleImports (exampleComponent\<lparr>analysisType := DIP\<rparr>) = Some p
        \<and> body_windowParameters (sp_body p) = ((6000, 9000), (1000, 4000)))
   \<and> earliest (exampleComponent\<lparr>earliest := None, shouldStart := True\<rparr>) = None
   \<and> startParams exampleImports
        (exampleComponent\<lparr>earliest := None, shouldStart := True\<rparr>) = None
   \<and> dispatched (shouldStartEffect exampleImports
        (exampleComponent\<lparr>earliest := None, shouldStart := True\<rparr>)) = []
   \<and> dispatched (firstRenderEffect exampleImports
        (exampleComponent\<lparr>earliest := None, shouldStart := True\<rparr>)) = []"
proof -
  let ?dip = "exampleComponent\<lparr>analysisType := DIP\<rparr>"
  let ?missing = "exampleComponent\<lparr>earliest := None, shouldStart := True\<rparr>"
  have spike: "chartWindowParameters exampleComponent = Some ((1000, 4000), (6000, 9000))
      \<and> earliest exampleComponent = Some 1000 \<and> latest exampleComponent = Some 9000
      \<and> (1000::real) \<noteq> 0 \<and> (9000::real) \<noteq> 0"
    "analysisType exampleComponent = SPIKE"
    by (simp_all add: exampleComponent_def)
  have dip: "chartWindowParameters ?dip = Some ((1000, 4000), (6000, 9000))
      \<and> earliest ?dip = Some 1000 \<and> latest ?dip = Some 9000
      \<and> (1000::real) \<noteq> 0 \<and> (9000::real) \<noteq> 0"
    "analysisType ?dip = DIP"
    "getSwappedWindowParameters exampleImports ((1000, 4000), (6000, 9000)) =
      ((6000, 9000), (1000, 4000))"
    by (simp_all add: exampleComponent_def exampleImports_def)
  have missing: "earliest ?missing = None" "dispatched ?missing = []"
    by (simp_all add: exampleComponent_def)
  from startParams_window_parameters [of exampleComponent exampleImports] spike
  have w1: "\<exists>p. startParams exampleImports exampleComponent = Some p
        \<and> body_windowParameters (sp_body p) = ((1000, 4000), (6000, 9000))"
    by blast
  from startParams_window_parameters [of ?dip exampleImports] dip(1,2)
  have "\<exists>p. startParams exampleImports ?dip = Some p
        \<and> body_windowParameters (sp_body p) =
            getSwappedWindowParameters exampleImports ((1000, 4000), (6000, 9000))"
    by blast
  then have w2: "\<exists>p. startParams exampleImports ?dip = Some p
        \<and> body_windowParameters (sp_body p) = ((6000, 9000), (1000, 4000))"
    by (simp only: dip(3))
  from startParams_window_parameters [of ?missing exampleImports] missing(1)
  have n: "startParams exampleImports ?missing = None"
    by blast
  with startParams_window_parameters [of ?missing exampleImports]
  have "shouldStartEffect exampleImports ?missing = ?missing"
    "firstRenderEffect exampleImports ?missing = ?missing"
    by blast+
  with missing(2) have w3: "dispatched (shouldStartEffect exampleImports ?missing) = []"
    "dispatched (firstRenderEffect exampleImports ?missing) = []"
    by simp_all
  from w1 w2 missing(1) n w3 show ?thesis by (intro conjI)
qed

subsection \<open>Skipped fields\<close>

text \<open>
  Claim C10. \<^verbatim>\<open>skippedFields\<close> starts as \<^verbatim>\<open>null\<close>; the effect assigns
  \<^verbatim>\<open>fieldFilterSkippedItems\<close> to it only while it is \<^verbatim>\<open>null\<close> and the items are
  not empty; once it is not \<^verbatim>\<open>null\<close>, no sequence of later updates of the field
  candidates changes it, in particular not after the user applied a selection.
\<close>

theorem skippedFields_set_on_first_load_only:
  "skippedFields (firstRender now ref a s) = None
   \<and> (skippedFields s = None \<and> fieldFilterSkippedItems (fieldCandidates s) \<noteq> []
      \<longrightarrow> skippedFields (skippedFieldsEffect s) =
            Some (fieldFilterSkippedItems (fieldCandidates s)))
   \<and> (skippedFields s = None \<and> fieldFilterSkippedItems (fieldCandidates s) = []
      \<longrightarrow> skippedFieldsEffect s = s)
   \<and> (\<forall>sel. skippedFields s = Some sel
      \<longrightarrow> skippedFieldsEffect s = s
          \<and> skippedFields (fold fieldCandidatesUpdate updates s) = Some sel)
   \<and> skippedFields (fold fieldCandidatesUpdate updates (onFieldsFilterChange S s)) = Some S"
proof -
  have "skippedFields (onFieldsFilterChange S s) = Some S"
    by (simp add: onFieldsFilterChange_def startHandler_def dispatch_def Let_def)
  then have "skippedFields (fold fieldCandidatesUpdate updates (onFieldsFilterChange S s)) = Some S"
    by (rule fold_fieldCandidatesUpdate_keeps)
  then show ?thesis
    by (simp add: firstRender_def skippedFieldsEffect_def fold_fieldCandidatesUpdate_keeps)
qed

theorem skippedFields_set_on_first_load_only_witness:
  "skippedFields exampleComponent = None
   \<and> fieldFilterSkippedItems (fieldCandidates exampleComponent) \<noteq> []
   \<and> skippedFields (skippedFieldsEffect exampleComponent) = Some [''agent'']
   \<and> skippedFields (exampleComponent\<lparr>skippedFields := Some [''host'']\<rparr>) = Some [''host'']
   \<and> skippedFields (fold fieldCandidatesUpdate
        [fieldCandidates exampleComponent,
         (fieldCandidates exampleComponent)\<lparr>fieldFilterSkippedItems := [''status'']\<rparr>]
        (exampleComponent\<lparr>skippedFields := Some [''host'']\<rparr>)) = Some [''host'']
   \<and> skippedFields (exampleComponent\<lparr>fieldCandidates :=
        (fieldCandidates exampleComponent)\<lparr>fieldFilterSkippedItems := []\<rparr>\<rparr>) = None
   \<and> fieldFilterSkippedItems (fieldCandidates (exampleComponent\<lparr>fieldCandidates :=
        (fieldCandidates exampleComponent)\<lparr>fieldFilterSkippedItems := []\<rparr>\<rparr>)) = []
   \<and> skippedFields (skippedFieldsEffect (exampleComponent\<lparr>fieldCandidates :=
        (fieldCandidates exampleComponent)\<lparr>fieldFilterSkippedItems := []\<rparr>\<rparr>)) = None"
proof -
  let ?user = "exampleComponent\<lparr>skippedFields := Some [''host'']\<rparr>"
  let ?empty = "exampleComponent\<lparr>fieldCandidates :=
        (fieldCandidates exampleComponent)\<lparr>fieldFilterSkippedItems := []\<rparr>\<rparr>"
  let ?updates = "[fieldCandidates exampleComponent,
         (fieldCandidates exampleComponent)\<lparr>fieldFilterSkippedItems := [''status'']\<rparr>]"
  have first: "skippedFields exampleComponent = None"
    "fieldFilterSkippedItems (fieldCandidates exampleComponent) = [''agent'']"
    by (simp_all add: exampleComponent_def)
  then have first_ne: "fieldFilterSkippedItems (fieldCandidates exampleComponent) \<noteq> []"
    by simp
  have user: "skippedFields ?user = Some [''host'']"
    by simp
  have empty: "skippedFields ?empty = None"
    "fieldFilterSkippedItems (fieldCandidates ?empty) = []"
    by (simp_all add: exampleComponent_def)
  from skippedFields_set_on_first_load_only [of _ _ _ exampleComponent] first(1) first_ne
  have "skippedFields (skippedFieldsEffect exampleComponent) =
      Some (fieldFilterSkippedItems (fieldCandidates exampleComponent))"
    by blast
  then have w1: "skippedFields (skippedFieldsEffect exampleComponent) = Some [''agent'']"
    by (simp only: first(2))
  from skippedFields_set_on_first_load_only [of _ _ _ ?user ?updates] user
  have w2: "skippedFields (fold fieldCandidatesUpdate ?updates ?user) = Some [''host'']"
    by blast
  from skippedFields_set_on_first_load_only [of _ _ _ ?empty] empty
  have "skippedFieldsEffect ?empty = ?empty"
    by blast
  with empty(1) have w3: "skippedFields (skippedFieldsEffect ?empty) = None"
    by simp
  from first(1) first_ne w1 user w2 empty w3 show ?thesis by (intro conjI)
qed

end
